theory Spec2Isabelle
  imports Complex_Main
begin

section \<open>Data model of \<open>src/tokens.ts\<close> and \<open>src/result.ts\<close>\<close>

text \<open>
  \<open>result.ts\<close>: a result is either \<open>{ok: true, data}\<close> or \<open>{ok: false, error}\<close>;
  \<open>ok\<close> and \<open>err\<close> build the two shapes.
\<close>

datatype ('d, 'e) Result = Ok (data_of: 'd) | Err (error_of: 'e)

definition ok :: "'d \<Rightarrow> ('d, 'e) Result" where
  "ok d = Ok d"

definition err :: "'e \<Rightarrow> ('d, 'e) Result" where
  "err e = Err e"

section \<open>JavaScript numbers\<close>

text \<open>
  \<open>expiresInMs\<close> is a \<open>number\<close>, and line 40 adds it to a time value with the
  \<open>+\<close> of numbers: an IEEE 754 binary64 addition. A number is \<open>NaN\<close>, an infinity,
  or a finite double, given by the rational it stands for (the two zeros are not
  told apart: neither \<open>+\<close> nor \<open><\<close> does). The sum of two finite doubles is
  their exact sum rounded to the nearest double, ties to the even significand,
  and an infinity once the rounded magnitude reaches \<open>2^1024\<close>, that is, once
  its exponent reaches 1024.
\<close>

datatype number = NaN | PosInfinity | NegInfinity | Finite rat

text \<open>The number of binary digits of a positive integer.\<close>

function bit_length :: "int \<Rightarrow> int" where
  "bit_length n = (if n \<le> 0 then 0 else 1 + bit_length (n div 2))"
  by pat_completeness auto
termination
  by (relation "measure nat") auto

declare bit_length.simps [simp del]

definition pow2 :: "int \<Rightarrow> rat" where
  "pow2 i = (if 0 \<le> i then 2 ^ nat i else 1 / 2 ^ nat (- i))"

text \<open>For \<open>x > 0\<close>, the exponent \<open>e\<close> with \<open>2^e \<le> x < 2^(e+1)\<close>.\<close>

definition floor_log2 :: "rat \<Rightarrow> int" where
  "floor_log2 x =
     (if 1 \<le> x then bit_length \<lfloor>x\<rfloor> - 1
      else - bit_length (\<lceil>1 / x\<rceil> - 1))"

definition round_half_even :: "rat \<Rightarrow> int" where
  "round_half_even y =
     (let n = \<lfloor>y\<rfloor>; d = y - of_int n
      in if d < 1 / 2 then n else if 1 / 2 < d then n + 1 else if even n then n else n + 1)"

text \<open>
  Rounding to binary64: the significand has 53 bits, so the doubles around \<open>x\<close> are
  the multiples of \<open>2^(e - 52)\<close>, where \<open>e\<close> is the exponent of \<open>x\<close> and is at least
  \<open>-1022\<close> (below that the doubles are subnormal, all multiples of \<open>2^-1074\<close>).
\<close>

definition round_binary64 :: "rat \<Rightarrow> number" where
  "round_binary64 x =
     (if x = 0 then Finite 0
      else
        (let q = pow2 (max (floor_log2 \<bar>x\<bar>) (- 1022) - 52);
             r = of_int (round_half_even (x / q)) * q
         in if 1024 \<le> floor_log2 \<bar>r\<bar> then (if 0 < x then PosInfinity else NegInfinity)
            else Finite r))"

text \<open>\<open>x + y\<close> and \<open>x < y\<close> on numbers.\<close>

fun number_add :: "number \<Rightarrow> number \<Rightarrow> number" where
  "number_add NaN y = NaN"
| "number_add x NaN = NaN"
| "number_add PosInfinity NegInfinity = NaN"
| "number_add NegInfinity PosInfinity = NaN"
| "number_add PosInfinity y = PosInfinity"
| "number_add NegInfinity y = NegInfinity"
| "number_add x PosInfinity = PosInfinity"
| "number_add x NegInfinity = NegInfinity"
| "number_add (Finite a) (Finite b) = round_binary64 (a + b)"

fun number_lt :: "number \<Rightarrow> number \<Rightarrow> bool" where
  "number_lt NaN y = False"
| "number_lt x NaN = False"
| "number_lt (Finite a) (Finite b) = (a < b)"
| "number_lt x NegInfinity = False"
| "number_lt PosInfinity y = False"
| "number_lt NegInfinity y = True"
| "number_lt x PosInfinity = True"

text \<open>
  A \<open>Date\<close> holds a time value, a whole number of milliseconds, or is invalid;
  \<open>getTime\<close> gives the time value as a number, \<open>NaN\<close> for an invalid date. The
  clock \<open>Date.now()\<close> is a time value too. A time value is at most
  \<open>8.64 * 10^15\<close> in magnitude, which is below \<open>2^53\<close>, so it is a double.
\<close>

datatype date = TimeValue int | InvalidDate

definition time_value :: "int \<Rightarrow> number" where
  "time_value t = Finite (of_int t)"

fun getTime :: "date \<Rightarrow> number" where
  "getTime (TimeValue t) = time_value t"
| "getTime InvalidDate = NaN"

section \<open>Tokens\<close>

text \<open>
  \<open>TokenBase\<close>. The input of \<open>create\<close> and \<open>getOrCreate\<close> is
  \<open>Omit<Token, "pin" | "createdAt">\<close>; a stored token document adds \<open>pin\<close>,
  \<open>createdAt\<close> and the document identity \<open>_id\<close> that Mongoose's \<open>deleteOne\<close>
  deletes by. \<open>createdAt\<close> is a date;
  \<open>expiresInMs\<close> is an optional number, \<open>None\<close> being \<open>undefined\<close>.
  The payload \<open>data\<close> is opaque.
\<close>

record 'd token_input =
  kind :: string
  "identifier" :: string
  data :: "'d option"
  expiresInMs :: "number option"

record 'd token = "'d token_input" +
  pin :: string
  createdAt :: date
  doc_id :: nat

section \<open>Expiry\<close>

text \<open>
  \<open>isExpired\<close> (lines 35 to 42). The first argument is the time \<open>Date.now()\<close>
  returns at the call.
\<close>

definition isExpired :: "int \<Rightarrow> ('d, 'z) token_scheme \<Rightarrow> bool" where
  "isExpired now tok =
     (case expiresInMs tok of
        None \<Rightarrow> False
      | Some ms \<Rightarrow>
          (let expiresAt = number_add (getTime (createdAt tok)) ms
           in number_lt expiresAt (time_value now)))"

section \<open>The two Mongoose models\<close>

text \<open>
  The class is built from \<open>models = {Token, User}\<close>, two Mongoose models of the
  surrounding application. The token collection is the list of its documents in
  natural order. \<open>findOne\<close> with an exact-match filter gives the first matching
  document or \<open>null\<close>; \<open>create\<close> appends a document, the schema supplying \<open>pin\<close>
  and \<open>createdAt\<close>; \<open>deleteOne\<close> on a document removes the document with that
  \<open>_id\<close>. Each of these is awaited, and an awaited store operation may reject: the
  set \<open>faults\<close> names the operations that reject, and a rejected operation changes
  nothing. The code catches no exception, so a rejection ends the method with the
  thrown value \<open>StoreFailure\<close> (\<open>Inl\<close>), outside the \<open>Result\<close> values.

  A user record is an object read by property name; only string values are told
  apart from the rest (line 127 compares with a string by \<open>!==\<close>, and what a plain
  object inherits is never a string, so it compares as \<open>undefined\<close> does). The
  user query is kept as a function from the filter \<open>{[field]: value}\<close> to the
  record returned, because the code itself does not trust the backend to return a
  record that matches.
\<close>

datatype exn = StoreFailure

datatype store_op = TokenFindOne | TokenCreate | TokenDeleteOne | UserFindOne

datatype 'a jsval = Undefined | Str string | Other 'a

type_synonym 'a rawUser = "string \<rightharpoonup> 'a jsval"

record ('d, 'a) models =
  Token :: "'d token list"
  User :: "string \<Rightarrow> string \<Rightarrow> 'a rawUser option"
  faults :: "store_op set"

definition getProp :: "'a rawUser \<Rightarrow> string \<Rightarrow> 'a jsval" where
  \<comment> \<open>\<open>obj[key]\<close>: a property that is not there reads as \<open>undefined\<close>.\<close>
  "getProp obj key = (case obj key of None \<Rightarrow> Undefined | Some v \<Rightarrow> v)"

text \<open>The two filter objects the code queries tokens with: \<open>{identifier, kind}\<close>
  (line 54) and \<open>{pin, kind}\<close> (line 82).\<close>

definition by_identifier_kind :: "string \<Rightarrow> string \<Rightarrow> 'd token \<Rightarrow> bool" where
  "by_identifier_kind i k d = (identifier d = i \<and> kind d = k)"

definition by_pin_kind :: "string \<Rightarrow> string \<Rightarrow> 'd token \<Rightarrow> bool" where
  "by_pin_kind p k d = (pin d = p \<and> kind d = k)"

definition Token_findOne ::
  "('d token \<Rightarrow> bool) \<Rightarrow> ('d, 'a) models \<Rightarrow> exn + 'd token option" where
  "Token_findOne flt m =
     (if TokenFindOne \<in> faults m then Inl StoreFailure else Inr (find flt (Token m)))"

definition fresh_id :: "'d token list \<Rightarrow> nat" where
  "fresh_id docs = Suc (fold max (map doc_id docs) 0)"

definition Token_create ::
  "int \<Rightarrow> string \<Rightarrow> 'd token_input \<Rightarrow> ('d, 'a) models \<Rightarrow> (exn + 'd token) \<times> ('d, 'a) models" where
  "Token_create now newPin input m =
     (if TokenCreate \<in> faults m then (Inl StoreFailure, m)
      else
        (let doc = \<lparr>kind = kind input, identifier = identifier input, data = data input,
                    expiresInMs = expiresInMs input,
                    pin = newPin, createdAt = TimeValue now, doc_id = fresh_id (Token m)\<rparr>
         in (Inr doc, m\<lparr>Token := Token m @ [doc]\<rparr>)))"

definition deleteOne ::
  "'d token \<Rightarrow> ('d, 'a) models \<Rightarrow> (exn + unit) \<times> ('d, 'a) models" where
  "deleteOne doc m =
     (if TokenDeleteOne \<in> faults m then (Inl StoreFailure, m)
      else (Inr (), m\<lparr>Token := filter (\<lambda>d. doc_id d \<noteq> doc_id doc) (Token m)\<rparr>))"

definition User_findOne ::
  "string \<Rightarrow> string \<Rightarrow> ('d, 'a) models \<Rightarrow> exn + 'a rawUser option" where
  "User_findOne fld val m =
     (if UserFindOne \<in> faults m then Inl StoreFailure else Inr (User m fld val))"

text \<open>
  Two user backends. \<open>exact_users\<close> answers a query with the first record whose
  field is exactly the string asked for. \<open>first_users\<close> is the behaviour the comment
  at line 124 guards against: the first user in the collection, whatever was asked.
\<close>

definition exact_users :: "'a rawUser list \<Rightarrow> string \<Rightarrow> string \<Rightarrow> 'a rawUser option" where
  "exact_users us fld val = find (\<lambda>u. u fld = Some (Str val)) us"

definition first_users :: "'a rawUser list \<Rightarrow> string \<Rightarrow> string \<Rightarrow> 'a rawUser option" where
  "first_users us fld val = (case us of [] \<Rightarrow> None | u # _ \<Rightarrow> Some u)"

section \<open>The class \<open>Tokens\<close>\<close>

text \<open>\<open>create\<close> (lines 45 and 46) hands its input to the model.\<close>

definition create ::
  "int \<Rightarrow> string \<Rightarrow> 'd token_input \<Rightarrow> ('d, 'a) models \<Rightarrow> (exn + 'd token) \<times> ('d, 'a) models" where
  "create now newPin input m = Token_create now newPin input m"

text \<open>
  \<open>getOrCreate\<close> (lines 49 to 71). In the branch of an expired token,
  \<open>Promise.all\<close> starts \<open>create\<close> and then \<open>deleteOne\<close>; both run to their end, and
  the awaited promise is fulfilled only when both are, otherwise it rejects.
\<close>

definition getOrCreate ::
  "int \<Rightarrow> string \<Rightarrow> 'd token_input \<Rightarrow> ('d, 'a) models \<Rightarrow> (exn + 'd token) \<times> ('d, 'a) models" where
  "getOrCreate now newPin input m =
     (case Token_findOne (by_identifier_kind (identifier input) (kind input)) m of
        Inl e \<Rightarrow> (Inl e, m)
      | Inr (Some existing) \<Rightarrow>
          if isExpired now existing then
            (case create now newPin input m of
               (r1, m1) \<Rightarrow>
                 (case deleteOne existing m1 of
                    (r2, m2) \<Rightarrow>
                      (case r1 of
                         Inl e \<Rightarrow> (Inl e, m2)
                       | Inr newToken \<Rightarrow>
                           (case r2 of
                              Inl e \<Rightarrow> (Inl e, m2)
                            | Inr removeOld \<Rightarrow> (Inr newToken, m2)))))
          else (Inr existing, m)
      | Inr None \<Rightarrow> create now newPin input m)"

text \<open>The error values of the results: the \<open>code\<close>, and the parsed identifier where
  the code attaches it.\<close>

record ident =
  field :: string
  "value" :: string

datatype error =
    token_not_found
  | token_expired
  | user_not_found ident
  | identifier_value_mismatch ident

text \<open>\<open>validateToken\<close> (lines 78 to 95).\<close>

definition validateToken ::
  "int \<Rightarrow> string \<Rightarrow> string \<Rightarrow> ('d, 'a) models
     \<Rightarrow> (exn + ('d token, error) Result) \<times> ('d, 'a) models" where
  "validateToken now p k m =
     (case Token_findOne (by_pin_kind p k) m of
        Inl e \<Rightarrow> (Inl e, m)
      | Inr None \<Rightarrow> (Inr (err token_not_found), m)
      | Inr (Some tok) \<Rightarrow>
          if isExpired now tok then
            (case deleteOne tok m of
               (Inl e, m') \<Rightarrow> (Inl e, m')
             | (Inr _, m') \<Rightarrow> (Inr (err token_expired), m'))
          else (Inr (ok tok), m))"

text \<open>
  \<open>String.prototype.split\<close> and \<open>Array.prototype.join\<close> with the separator
  \<open>":"\<close>. \<open>split\<close> of any string has at least one piece.
\<close>

fun split :: "char \<Rightarrow> string \<Rightarrow> string list" where
  "split c [] = [[]]"
| "split c (x # xs) =
     (if x = c then [] # split c xs
      else (case split c xs of [] \<Rightarrow> [[x]] | piece # pieces \<Rightarrow> (x # piece) # pieces))"

fun join :: "char \<Rightarrow> string list \<Rightarrow> string" where
  "join c [] = []"
| "join c [piece] = piece"
| "join c (piece # pieces) = piece @ c # join c pieces"

text \<open>Lines 111 and 112: \<open>[idField, ...idRest] = identifier.split(":")\<close>.\<close>

definition parseIdentifier :: "string \<Rightarrow> ident" where
  "parseIdentifier s =
     (case split CHR '':'' s of
        [] \<Rightarrow> \<lparr>field = [], value = []\<rparr>
      | idField # idRest \<Rightarrow> \<lparr>field = idField, value = join CHR '':'' idRest\<rparr>)"

text \<open>
  \<open>getTokenUser\<close> (lines 109 to 138). The user returned is
  \<open>{userId: _id, ...userRest}\<close> where \<open>{_id, ...userRest} = rawUser\<close>: the properties
  of the spread come after \<open>userId\<close> and so win over it.
\<close>

definition lucia_user :: "'a rawUser \<Rightarrow> 'a rawUser" where
  "lucia_user rawUser =
     (let u_id = getProp rawUser ''_id''; userRest = rawUser |` (- {''_id''})
      in [''userId'' \<mapsto> u_id] ++ userRest)"

definition getTokenUser ::
  "('d, 'z) token_scheme \<Rightarrow> ('d, 'a) models
     \<Rightarrow> (exn + (ident \<times> 'a rawUser, error) Result) \<times> ('d, 'a) models" where
  "getTokenUser tok m =
     (let ident = parseIdentifier (identifier tok) in
      case User_findOne (field ident) (value ident) m of
        Inl e \<Rightarrow> (Inl e, m)
      | Inr None \<Rightarrow> (Inr (err (user_not_found ident)), m)
      | Inr (Some rawUser) \<Rightarrow>
          if getProp rawUser (field ident) \<noteq> Str (value ident)
          then (Inr (err (identifier_value_mismatch ident)), m)
          else (Inr (ok (ident, lucia_user rawUser)), m))"

text \<open>\<open>validateUserToken\<close> (lines 145 to 160).\<close>

definition validateUserToken ::
  "int \<Rightarrow> string \<Rightarrow> string \<Rightarrow> ('d, 'a) models
     \<Rightarrow> (exn + ('a rawUser \<times> 'd token, error) Result) \<times> ('d, 'a) models" where
  "validateUserToken now p k m =
     (case validateToken now p k m of
        (Inl e, m1) \<Rightarrow> (Inl e, m1)
      | (Inr (Err e), m1) \<Rightarrow> (Inr (Err e), m1)
      | (Inr (Ok tok), m1) \<Rightarrow>
          (case getTokenUser tok m1 of
             (Inl e, m2) \<Rightarrow> (Inl e, m2)
           | (Inr (Err e), m2) \<Rightarrow>
               (case deleteOne tok m2 of
                  (Inl x, m3) \<Rightarrow> (Inl x, m3)
                | (Inr _, m3) \<Rightarrow> (Inr (Err e), m3))
           | (Inr (Ok userCheck), m2) \<Rightarrow> (Inr (ok (snd userCheck, tok)), m2)))"

section \<open>Fixtures\<close>

text \<open>
  The scenario of the end-to-end test: a token of kind \<open>verify\<close> for
  \<open>email:a@b.com\<close> that lives 1000 ms from time 0, beside a token that never
  expires, and two user records.
\<close>

definition tokA :: "unit token" where
  "tokA = \<lparr>kind = ''verify'', identifier = ''email:a@b.com'', data = None,
           expiresInMs = Some (Finite 1000), pin = ''1111'', createdAt = TimeValue 0, doc_id = 1\<rparr>"

text \<open>A token whose duration is no whole number of milliseconds: \<open>1000 - 2^-14\<close>,
  a double.\<close>

definition tokF :: "unit token" where
  "tokF = \<lparr>kind = ''verify'', identifier = ''email:f@g.com'', data = None,
           expiresInMs = Some (Finite (1000 - 1 / 16384)), pin = ''7777'',
           createdAt = TimeValue 1700000000000, doc_id = 9\<rparr>"

definition tokB :: "unit token" where
  "tokB = \<lparr>kind = ''reset'', identifier = ''email:c@d.com'', data = None,
           expiresInMs = None, pin = ''2222'', createdAt = TimeValue 0, doc_id = 2\<rparr>"

definition userA :: "nat rawUser" where
  "userA = [''_id'' \<mapsto> Other 7, ''email'' \<mapsto> Str ''a@b.com'']"

definition userC :: "nat rawUser" where
  "userC = [''_id'' \<mapsto> Other 8, ''email'' \<mapsto> Str ''c@d.com'', ''userId'' \<mapsto> Str ''legacy'']"

definition tokO :: "unit token" where
  "tokO = \<lparr>kind = ''verify'', identifier = ''email:gone@x.com'', data = None,
           expiresInMs = None, pin = ''4444'', createdAt = TimeValue 0, doc_id = 3\<rparr>"

definition demo :: "(unit, nat) models" where
  "demo = \<lparr>Token = [tokA, tokB, tokO], User = exact_users [userA, userC], faults = {}\<rparr>"

text \<open>The same models with a backend that answers every query with its first user,
  and with a token collection whose \<open>deleteOne\<close> rejects.\<close>

definition demo_first_user :: "(unit, nat) models" where
  "demo_first_user = \<lparr>Token = [tokA, tokB, tokO], User = first_users [userC], faults = {}\<rparr>"

definition demo_delete_fails :: "(unit, nat) models" where
  "demo_delete_fails =
     \<lparr>Token = [tokA, tokB, tokO], User = exact_users [userA, userC], faults = {TokenDeleteOne}\<rparr>"

definition inputA :: "unit token_input" where
  "inputA = \<lparr>kind = ''verify'', identifier = ''email:a@b.com'', data = None,
             expiresInMs = Some (Finite 1000)\<rparr>"

text \<open>The document that \<open>create\<close> makes from \<open>inputA\<close> at time 5000 with pin
  \<open>5555\<close> in these models.\<close>

definition tokA2 :: "unit token" where
  "tokA2 = \<lparr>kind = ''verify'', identifier = ''email:a@b.com'', data = None,
            expiresInMs = Some (Finite 1000), pin = ''5555'', createdAt = TimeValue 5000, doc_id = 4\<rparr>"

section \<open>Helper lemmas\<close>

lemma split_nonempty: "split c s \<noteq> []"
  by (induction s) (auto split: list.splits)

lemma join_push: "join c ((x # piece) # pieces) = x # join c (piece # pieces)"
  by (cases pieces) simp_all

lemma join_sep: "pieces \<noteq> [] \<Longrightarrow> join c ([] # pieces) = c # join c pieces"
  by (cases pieces) simp_all

lemma join_split: "join c (split c s) = s"
proof (induction s)
  case Nil
  then show ?case by simp
next
  case (Cons x xs)
  show ?case
  proof (cases "x = c")
    case True
    then show ?thesis
      using Cons.IH split_nonempty [of c xs] by (simp add: join_sep)
  next
    case False
    obtain piece pieces where sp: "split c xs = piece # pieces"
      using split_nonempty [of c xs] by (cases "split c xs") auto
    with False Cons.IH show ?thesis
      by (simp add: join_push del: join.simps)
  qed
qed

lemma split_first: "c \<notin> set f \<Longrightarrow> split c (f @ c # v) = f # split c v"
  by (induction f) (auto split: list.splits)

lemma fold_max_start: "a \<le> fold max xs (a::nat)"
  by (induction xs arbitrary: a) (auto intro: order_trans [OF max.cobounded2])

lemma fold_max_ge: "x \<in> set xs \<Longrightarrow> x \<le> fold max xs (a::nat)"
proof (induction xs arbitrary: a)
  case Nil
  then show ?case by simp
next
  case (Cons y ys)
  then show ?case
    using fold_max_start [of "max y a" ys] by auto
qed

lemma fresh_id_fresh: "d \<in> set docs \<Longrightarrow> doc_id d < fresh_id docs"
  using fold_max_ge [of "doc_id d" "map doc_id docs" 0] by (auto simp: fresh_id_def)

subsection \<open>Whole numbers below \<open>2^53\<close> are doubles\<close>

lemma bit_length_le: "n < 2 ^ w \<Longrightarrow> bit_length n \<le> int w"
proof (induction w arbitrary: n)
  case 0
  then show ?case by (simp add: bit_length.simps)
next
  case (Suc w)
  show ?case
  proof (cases "n \<le> 0")
    case True
    then show ?thesis by (simp add: bit_length.simps)
  next
    case False
    from Suc.prems have "n div 2 < 2 ^ w" by simp
    then have "bit_length (n div 2) \<le> int w" by (rule Suc.IH)
    with False show ?thesis by (simp add: bit_length.simps [of n])
  qed
qed

lemma bit_length_pos: "0 < n \<Longrightarrow> 1 \<le> bit_length n"
proof -
  assume "0 < n"
  have "0 \<le> bit_length m" for m
    by (induction m rule: bit_length.induct) (simp add: bit_length.simps)
  from this [of "n div 2"] \<open>0 < n\<close> show ?thesis
    by (simp add: bit_length.simps [of n])
qed

lemma round_half_even_of_int: "round_half_even (of_int n) = n"
  by (simp add: round_half_even_def)

lemma round_binary64_of_int:
  assumes "\<bar>k\<bar> < 2 ^ 53"
  shows "round_binary64 (of_int k) = Finite (of_int k)"
proof (cases "k = 0")
  case True
  then show ?thesis by (simp add: round_binary64_def)
next
  case False
  define a where "a = \<bar>k\<bar>"
  have a: "0 < a" "a < 2 ^ 53" using False assms by (simp_all add: a_def)
  have abs_eq: "\<bar>of_int k :: rat\<bar> = of_int a" by (simp add: a_def)
  have fl: "floor_log2 (of_int a) = bit_length a - 1"
    using a(1) by (simp add: floor_log2_def)
  define j where "j = nat (53 - bit_length a)"
  have bl: "1 \<le> bit_length a" "bit_length a \<le> 53"
    using bit_length_pos [OF a(1)] bit_length_le [OF a(2)] by simp_all
  then have qe: "max (bit_length a - 1) (- 1022) - 52 = - int j"
    by (simp add: j_def)
  have q: "pow2 (- int j) = 1 / 2 ^ j"
    by (cases "j = 0") (simp_all add: pow2_def)
  have scaled: "(of_int k :: rat) / (1 / 2 ^ j) = of_int (k * 2 ^ j)"
    by simp
  have unscaled: "(of_int (k * 2 ^ j) :: rat) * (1 / 2 ^ j) = of_int k"
    by simp
  have small: "\<not> (1024 \<le> bit_length a - 1)"
    using bl by simp
  have nz: "(of_int k :: rat) \<noteq> 0" using False by simp
  show ?thesis
    unfolding round_binary64_def Let_def abs_eq fl qe q scaled round_half_even_of_int unscaled
    using nz small by simp
qed

lemma isExpired_whole_ms:
  assumes "createdAt tok = TimeValue c" and "expiresInMs tok = Some (Finite (of_int k))"
    and "\<bar>c + k\<bar> < 2 ^ 53"
  shows "isExpired now tok = (c + k < now)"
proof -
  have sum: "number_add (time_value c) (Finite (of_int k)) = Finite (of_int (c + k))"
  proof -
    have "number_add (time_value c) (Finite (of_int k)) = round_binary64 (of_int (c + k))"
      by (simp add: time_value_def)
    also have "\<dots> = Finite (of_int (c + k))"
      using assms(3) by (rule round_binary64_of_int)
    finally show ?thesis .
  qed
  have "isExpired now tok
          = number_lt (number_add (time_value c) (Finite (of_int k))) (time_value now)"
    using assms(1,2) by (simp add: isExpired_def)
  also have "\<dots> = number_lt (Finite (of_int (c + k))) (Finite (of_int now))"
    by (simp only: sum) (simp only: time_value_def)
  also have "\<dots> = (c + k < now)"
    by (simp only: number_lt.simps of_int_less_iff)
  finally show ?thesis .
qed

lemma isExpired_at_exact_sum:
  assumes "createdAt tok = TimeValue c" and "expiresInMs tok = Some (Finite r)"
    and "of_int c + r = of_int now" and "\<bar>now\<bar> < 2 ^ 53"
  shows "\<not> isExpired now tok"
proof -
  have sum: "number_add (time_value c) (Finite r) = Finite (of_int now)"
  proof -
    have "number_add (time_value c) (Finite r) = round_binary64 (of_int now)"
      using assms(3) by (simp add: time_value_def)
    also have "\<dots> = Finite (of_int now)"
      using assms(4) by (rule round_binary64_of_int)
    finally show ?thesis .
  qed
  have "isExpired now tok
          = number_lt (number_add (time_value c) (Finite r)) (time_value now)"
    using assms(1,2) by (simp add: isExpired_def)
  also have "\<dots> = number_lt (Finite (of_int now)) (Finite (of_int now))"
    by (simp only: sum) (simp only: time_value_def)
  also have "\<dots> = False"
    by simp
  finally show ?thesis by simp
qed

text \<open>The sum of line 40 for the token \<open>tokF\<close>: the exact sum lies a quarter of the
  way below the double 1700000001000 from the double before it, and rounds up.\<close>

lemma tokF_sum_rounds_up:
  "round_binary64 (1700000000000 + (1000 - 1 / 16384)) = Finite 1700000001000"
  by code_simp

text \<open>
  The addition checked against sums known from JavaScript:
  \<open>0.1 + 0.2\<close> is \<open>0.30000000000000004\<close>; \<open>2^53 + 1\<close> is \<open>2^53\<close> and \<open>2^53 + 3\<close> is
  \<open>2^53 + 4\<close> (ties to even); \<open>1700000000000 + 491999.99999999994\<close> is
  \<open>1700000492000\<close>; \<open>1700000000000 + 999.9999\<close> is \<open>1700000001000\<close>. Each double is
  written as the rational it stands for.
\<close>

lemma number_add_known_sums:
  "number_add (Finite (3602879701896397 / 36028797018963968))
       (Finite (3602879701896397 / 18014398509481984))
     = Finite (1351079888211149 / 4503599627370496)"
  "number_add (Finite 9007199254740992) (Finite 1) = Finite 9007199254740992"
  "number_add (Finite 9007199254740992) (Finite 3) = Finite 9007199254740996"
  "number_add (Finite 1700000000000) (Finite (8452495638527999 / 17179869184))
     = Finite 1700000492000"
  "number_add (Finite 1700000000000) (Finite (4398046071299349 / 4398046511104))
     = Finite 1700000001000"
  by code_simp+

lemma tokA_fields: "createdAt tokA = TimeValue 0" "expiresInMs tokA = Some (Finite 1000)"
  by (simp_all add: tokA_def)

lemma tokF_fields: "createdAt tokF = TimeValue 1700000000000"
  "expiresInMs tokF = Some (Finite (1000 - 1 / 16384))"
  by (simp_all add: tokF_def)

section \<open>When a token is expired\<close>

text \<open>
  C4, as the code has it. Line 40 adds the time value of \<open>createdAt\<close> and
  \<open>expiresInMs\<close> as numbers and line 41 compares \<open>expiresAt < Date.now()\<close>. So a
  token with \<open>expiresInMs\<close> present is expired exactly when that sum, a double (the
  exact sum rounded to the nearest double), is strictly before the current time:
  never for an invalid \<open>createdAt\<close> or a duration \<open>NaN\<close> or \<open>+Infinity\<close>, always
  for \<open>-Infinity\<close>. For a whole number of milliseconds, the sum below \<open>2^53\<close> in
  magnitude, the addition is exact and the token is expired exactly when the
  current time is strictly after \<open>createdAt + expiresInMs\<close>. At the boundary, where
  the current time equals the exact sum \<open>createdAt + expiresInMs\<close>, the token is not
  expired yet, whatever the duration.
\<close>

theorem isExpired_iff_now_after:
  assumes "expiresInMs tok = Some ms"
  shows "(createdAt tok = InvalidDate \<or> ms = NaN \<or> ms = PosInfinity \<longrightarrow> \<not> isExpired now tok)
       \<and> (\<forall>c. createdAt tok = TimeValue c \<and> ms = NegInfinity \<longrightarrow> isExpired now tok)
       \<and> (\<forall>c r. createdAt tok = TimeValue c \<and> ms = Finite r
             \<longrightarrow> isExpired now tok
                  = number_lt (round_binary64 (of_int c + r)) (Finite (of_int now)))
       \<and> (\<forall>c k. createdAt tok = TimeValue c \<and> ms = Finite (of_int k) \<and> \<bar>c + k\<bar> < 2 ^ 53
             \<longrightarrow> isExpired now tok = (now > c + k))
       \<and> (\<forall>c r. createdAt tok = TimeValue c \<and> ms = Finite r \<and> of_int c + r = of_int now
               \<and> \<bar>now\<bar> < 2 ^ 53
             \<longrightarrow> \<not> isExpired now tok)"
proof (intro conjI allI impI)
  assume "createdAt tok = InvalidDate \<or> ms = NaN \<or> ms = PosInfinity"
  with assms show "\<not> isExpired now tok"
    by (cases "createdAt tok") (auto simp: isExpired_def time_value_def)
next
  fix c
  assume "createdAt tok = TimeValue c \<and> ms = NegInfinity"
  with assms show "isExpired now tok"
    by (simp add: isExpired_def time_value_def)
next
  fix c r
  assume "createdAt tok = TimeValue c \<and> ms = Finite r"
  with assms show "isExpired now tok
      = number_lt (round_binary64 (of_int c + r)) (Finite (of_int now))"
    by (simp add: isExpired_def time_value_def)
next
  fix c k
  assume "createdAt tok = TimeValue c \<and> ms = Finite (of_int k) \<and> \<bar>c + k\<bar> < 2 ^ 53"
  with assms have "isExpired now tok = (c + k < now)"
    by (intro isExpired_whole_ms) simp_all
  then show "isExpired now tok = (now > c + k)" .
next
  fix c r
  assume "createdAt tok = TimeValue c \<and> ms = Finite r \<and> of_int c + r = of_int now
      \<and> \<bar>now\<bar> < 2 ^ 53"
  with assms show "\<not> isExpired now tok"
    by (intro isExpired_at_exact_sum [of tok c r now]) simp_all
qed

theorem isExpired_iff_now_after_witness:
  "createdAt tokA = TimeValue 0 \<and> expiresInMs tokA = Some (Finite 1000)
   \<and> isExpired 1001 tokA \<and> \<not> isExpired 1000 tokA \<and> \<not> isExpired 999 tokA
   \<and> createdAt tokF = TimeValue 1700000000000
   \<and> expiresInMs tokF = Some (Finite (1000 - 1 / 16384))
   \<and> isExpired 1700000001000 tokF
       = number_lt (round_binary64 (1700000000000 + (1000 - 1 / 16384))) (Finite 1700000001000)
   \<and> \<not> isExpired 1700000001000 tokF \<and> isExpired 1700000001001 tokF
   \<and> \<not> isExpired 5000 (tokA\<lparr>expiresInMs := Some NaN\<rparr>)
   \<and> \<not> isExpired 5000 (tokA\<lparr>expiresInMs := Some PosInfinity\<rparr>)
   \<and> \<not> isExpired 5000 (tokA\<lparr>createdAt := InvalidDate\<rparr>)
   \<and> isExpired 5000 (tokA\<lparr>expiresInMs := Some NegInfinity\<rparr>)"
proof -
  note a = tokA_fields
  note f = tokF_fields
  have whole: "createdAt tokA = TimeValue 0 \<and> Finite 1000 = Finite (of_int 1000)
      \<and> \<bar>0 + 1000 :: int\<bar> < 2 ^ 53"
    by (simp add: a)
  have after: "isExpired 1001 tokA"
    using isExpired_iff_now_after [OF a(2), of 1001, THEN conjunct2, THEN conjunct2,
        THEN conjunct2, THEN conjunct1, rule_format, OF whole]
    by simp
  have before: "\<not> isExpired 999 tokA"
    using isExpired_iff_now_after [OF a(2), of 999, THEN conjunct2, THEN conjunct2,
        THEN conjunct2, THEN conjunct1, rule_format, OF whole]
    by simp
  have edge: "createdAt tokA = TimeValue 0 \<and> Finite 1000 = Finite 1000
      \<and> of_int 0 + 1000 = (of_int 1000 :: rat) \<and> \<bar>1000 :: int\<bar> < 2 ^ 53"
    by (simp add: a)
  have at: "\<not> isExpired 1000 tokA"
    using isExpired_iff_now_after [OF a(2), of 1000, THEN conjunct2, THEN conjunct2,
        THEN conjunct2, THEN conjunct2, rule_format, OF edge] .
  have rounded: "isExpired now tokF
       = number_lt (round_binary64 (1700000000000 + (1000 - 1 / 16384))) (Finite (of_int now))"
    for now
    using isExpired_iff_now_after [OF f(2), of now, THEN conjunct2, THEN conjunct2,
        THEN conjunct1, rule_format, OF conjI [OF f(1) refl]]
    by (simp only: of_int_numeral)
  have rounded0: "isExpired 1700000001000 tokF
       = number_lt (round_binary64 (1700000000000 + (1000 - 1 / 16384))) (Finite 1700000001000)"
    using rounded [of 1700000001000] by (simp only: of_int_numeral)
  have not_yet: "\<not> isExpired 1700000001000 tokF"
    unfolding rounded0 tokF_sum_rounds_up by simp
  have later: "isExpired 1700000001001 tokF"
    unfolding rounded tokF_sum_rounds_up by simp
  have nan: "expiresInMs (tokA\<lparr>expiresInMs := Some NaN\<rparr>) = Some NaN"
    and pinf: "expiresInMs (tokA\<lparr>expiresInMs := Some PosInfinity\<rparr>) = Some PosInfinity"
    and ninf: "expiresInMs (tokA\<lparr>expiresInMs := Some NegInfinity\<rparr>) = Some NegInfinity"
    and inv: "expiresInMs (tokA\<lparr>createdAt := InvalidDate\<rparr>) = Some (Finite 1000)"
    by (simp_all add: a)
  have never1: "\<not> isExpired 5000 (tokA\<lparr>expiresInMs := Some NaN\<rparr>)"
    using isExpired_iff_now_after [OF nan, of 5000, THEN conjunct1] by simp
  have never2: "\<not> isExpired 5000 (tokA\<lparr>expiresInMs := Some PosInfinity\<rparr>)"
    using isExpired_iff_now_after [OF pinf, of 5000, THEN conjunct1] by simp
  have never3: "\<not> isExpired 5000 (tokA\<lparr>createdAt := InvalidDate\<rparr>)"
    using isExpired_iff_now_after [OF inv, of 5000, THEN conjunct1] by simp
  have always: "isExpired 5000 (tokA\<lparr>expiresInMs := Some NegInfinity\<rparr>)"
    using isExpired_iff_now_after [OF ninf, of 5000, THEN conjunct2, THEN conjunct1,
        rule_format, of 0]
    by (simp add: a)
  show ?thesis
    using a f after at before rounded0 not_yet later never1 never2 never3 always by simp
qed

text \<open>
  C4 as the claim states it fails at the boundary: for the token created at 0 with
  \<open>expiresInMs = 1000\<close> and the current time 1000, \<open>now \<ge> createdAt + expiresInMs\<close>
  holds, and \<open>isExpired\<close> returns false.
\<close>

theorem isExpired_boundary_counterexample:
  "createdAt tokA = TimeValue 0 \<and> expiresInMs tokA = Some (Finite 1000)
   \<and> \<not> (isExpired 1000 tokA = (1000 \<ge> (0 :: int) + 1000))"
proof -
  have "expiresInMs tokA = Some (Finite (of_int 1000))" "\<bar>0 + 1000 :: int\<bar> < 2 ^ 53"
    by (simp_all add: tokA_fields)
  with tokA_fields(1) have "isExpired 1000 tokA = (0 + 1000 < (1000 :: int))"
    by (rule isExpired_whole_ms)
  then show ?thesis by (simp add: tokA_fields)
qed

text \<open>
  C5, as the code has it. \<open>isExpired\<close> depends on \<open>createdAt\<close>, \<open>expiresInMs\<close> and
  the current time only: it is false for every token without \<open>expiresInMs\<close>,
  whatever its \<open>createdAt\<close>; otherwise it is true if and only if the sum
  \<open>createdAt + expiresInMs\<close> that line 40 computes, a double, is strictly before the
  current time, which for a whole number of milliseconds (the sum below \<open>2^53\<close> in
  magnitude) is the exact sum; and two tokens that agree on the two fields get the
  same answer at the same time.
\<close>

theorem isExpired_pure_strictly_before:
  "(expiresInMs tok = None \<longrightarrow> \<not> isExpired now tok)
   \<and> (\<forall>ms. expiresInMs tok = Some ms
         \<longrightarrow> isExpired now tok
              = number_lt (number_add (getTime (createdAt tok)) ms) (time_value now))
   \<and> (\<forall>c k. createdAt tok = TimeValue c \<and> expiresInMs tok = Some (Finite (of_int k))
           \<and> \<bar>c + k\<bar> < 2 ^ 53
         \<longrightarrow> isExpired now tok = (c + k < now))
   \<and> (createdAt tok' = createdAt tok \<and> expiresInMs tok' = expiresInMs tok
        \<longrightarrow> isExpired now tok' = isExpired now tok)"
proof (intro conjI allI impI)
  assume "expiresInMs tok = None"
  then show "\<not> isExpired now tok" by (simp add: isExpired_def)
next
  fix ms
  assume "expiresInMs tok = Some ms"
  then show "isExpired now tok
      = number_lt (number_add (getTime (createdAt tok)) ms) (time_value now)"
    by (simp add: isExpired_def)
next
  fix c k
  assume "createdAt tok = TimeValue c \<and> expiresInMs tok = Some (Finite (of_int k))
      \<and> \<bar>c + k\<bar> < 2 ^ 53"
  then show "isExpired now tok = (c + k < now)"
    by (intro isExpired_whole_ms) simp_all
next
  assume "createdAt tok' = createdAt tok \<and> expiresInMs tok' = expiresInMs tok"
  then show "isExpired now tok' = isExpired now tok"
    by (auto simp: isExpired_def split: option.splits)
qed

theorem isExpired_pure_strictly_before_witness:
  "expiresInMs tokB = None \<and> \<not> isExpired 5000 tokB
   \<and> createdAt tokA = TimeValue 0 \<and> expiresInMs tokA = Some (Finite 1000)
   \<and> isExpired 1001 tokA
       = number_lt (number_add (getTime (TimeValue 0)) (Finite 1000)) (time_value 1001)
   \<and> isExpired 1001 tokA \<and> \<not> isExpired 1000 tokA
   \<and> createdAt (tokA\<lparr>pin := ''3333''\<rparr>) = createdAt tokA
   \<and> expiresInMs (tokA\<lparr>pin := ''3333''\<rparr>) = expiresInMs tokA
   \<and> isExpired 1001 (tokA\<lparr>pin := ''3333''\<rparr>) = isExpired 1001 tokA"
proof -
  have b: "expiresInMs tokB = None" by (simp add: tokB_def)
  note a = tokA_fields
  have whole: "createdAt tokA = TimeValue 0 \<and> expiresInMs tokA = Some (Finite (of_int 1000))
      \<and> \<bar>0 + 1000 :: int\<bar> < 2 ^ 53"
    by (simp add: a)
  have same: "createdAt (tokA\<lparr>pin := ''3333''\<rparr>) = createdAt tokA
      \<and> expiresInMs (tokA\<lparr>pin := ''3333''\<rparr>) = expiresInMs tokA"
    by simp
  note absent = isExpired_pure_strictly_before [of tokB 5000 tokB, THEN conjunct1, rule_format, OF b]
  note t = isExpired_pure_strictly_before [of tokA _ "tokA\<lparr>pin := ''3333''\<rparr>"]
  have sum: "isExpired 1001 tokA
      = number_lt (number_add (getTime (TimeValue 0)) (Finite 1000)) (time_value 1001)"
    using t [of 1001, THEN conjunct2, THEN conjunct1, rule_format, OF a(2)] by (simp only: a(1))
  have after: "isExpired 1001 tokA"
    using t [of 1001, THEN conjunct2, THEN conjunct2, THEN conjunct1, rule_format, OF whole]
    by simp
  have at: "\<not> isExpired 1000 tokA"
    using t [of 1000, THEN conjunct2, THEN conjunct2, THEN conjunct1, rule_format, OF whole]
    by simp
  note pure = t [of 1001, THEN conjunct2, THEN conjunct2, THEN conjunct2, rule_format, OF same]
  show ?thesis
    using b absent a sum after at same pure by simp
qed

text \<open>
  C5 as the claim states it fails for a duration that is no whole number of
  milliseconds: for the token created at 1700000000000 with
  \<open>expiresInMs = 1000 - 2^-14\<close> and the current time 1700000001000, the exact sum
  \<open>createdAt + expiresInMs\<close> is strictly before the current time, but the double
  sum of line 40 rounds up to 1700000001000 and \<open>isExpired\<close> returns false.
\<close>

theorem isExpired_rounded_sum_counterexample:
  "createdAt tokF = TimeValue 1700000000000
   \<and> expiresInMs tokF = Some (Finite (1000 - 1 / 16384))
   \<and> 1700000000000 + (1000 - 1 / 16384) < (1700000001000 :: rat)
   \<and> \<not> isExpired 1700000001000 tokF"
proof -
  have "isExpired 1700000001000 tokF
      = number_lt (number_add (getTime (TimeValue 1700000000000)) (Finite (1000 - 1 / 16384)))
          (time_value 1700000001000)"
    unfolding isExpired_def tokF_fields by (simp only: option.case Let_def)
  also have "\<dots> = number_lt (round_binary64 (1700000000000 + (1000 - 1 / 16384)))
      (Finite 1700000001000)"
    by (simp only: getTime.simps time_value_def number_add.simps of_int_numeral)
  also have "\<dots> = False"
    unfolding tokF_sum_rounds_up by simp
  finally have "\<not> isExpired 1700000001000 tokF" by simp
  moreover have "1700000000000 + (1000 - 1 / 16384) < (1700000001000 :: rat)"
    by simp
  ultimately show ?thesis
    using tokF_fields by simp
qed

section \<open>Parsing the identifier\<close>

text \<open>
  C9. The identifier is split at its first colon only: for a field without a
  colon and any value, colons allowed, \<open>field:value\<close> parses to that field and that
  value.
\<close>

theorem parseIdentifier_first_colon:
  "CHR '':'' \<notin> set f \<Longrightarrow> parseIdentifier (f @ '':'' @ v) = \<lparr>field = f, value = v\<rparr>"
  by (simp add: parseIdentifier_def split_first join_split)

theorem parseIdentifier_first_colon_witness:
  "CHR '':'' \<notin> set ''email'' \<and> CHR '':'' \<notin> set ''meta''
   \<and> parseIdentifier ''email:a@example.com'' = \<lparr>field = ''email'', value = ''a@example.com''\<rparr>
   \<and> parseIdentifier ''meta:a:b'' = \<lparr>field = ''meta'', value = ''a:b''\<rparr>"
  using parseIdentifier_first_colon [of "''email''" "''a@example.com''"]
    parseIdentifier_first_colon [of "''meta''" "''a:b''"]
  by simp

section \<open>Facts about the fixtures\<close>

lemma find_in_set: "find P xs = Some x \<Longrightarrow> x \<in> set xs"
  by (auto simp: find_Some_iff)

lemma parse_a: "parseIdentifier ''email:a@b.com'' = \<lparr>field = ''email'', value = ''a@b.com''\<rparr>"
  by (simp add: parseIdentifier_def)

lemma parse_c: "parseIdentifier ''email:c@d.com'' = \<lparr>field = ''email'', value = ''c@d.com''\<rparr>"
  by (simp add: parseIdentifier_def)

lemma parse_gone:
  "parseIdentifier ''email:gone@x.com'' = \<lparr>field = ''email'', value = ''gone@x.com''\<rparr>"
  by (simp add: parseIdentifier_def)

lemmas fixture_defs = tokA_def tokB_def tokO_def userA_def userC_def inputA_def

lemma demo_fields: "Token demo = [tokA, tokB, tokO]" "faults demo = {}"
  "User demo = exact_users [userA, userC]"
  by (simp_all add: demo_def)

lemma demo_delete_fails_fields: "Token demo_delete_fails = [tokA, tokB, tokO]"
  "faults demo_delete_fails = {TokenDeleteOne}"
  by (simp_all add: demo_delete_fails_def)

lemma find_1111: "find (by_pin_kind ''1111'' ''verify'') [tokA, tokB, tokO] = Some tokA"
  by (simp add: by_pin_kind_def fixture_defs)

lemma find_4444: "find (by_pin_kind ''4444'' ''verify'') [tokA, tokB, tokO] = Some tokO"
  by (simp add: by_pin_kind_def fixture_defs)

lemma find_9999: "find (by_pin_kind ''9999'' ''verify'') [tokA, tokB, tokO] = None"
  by (simp add: by_pin_kind_def fixture_defs)

lemma find_inputA:
  "find (by_identifier_kind (identifier inputA) (kind inputA)) [tokA, tokB, tokO] = Some tokA"
  by (simp add: by_identifier_kind_def fixture_defs)

lemma drop_tokA: "filter (\<lambda>d. doc_id d \<noteq> doc_id tokA) [tokA, tokB, tokO] = [tokB, tokO]"
  by (simp add: fixture_defs)

lemma drop_tokO: "filter (\<lambda>d. doc_id d \<noteq> doc_id tokO) [tokA, tokB, tokO] = [tokA, tokB]"
  by (simp add: fixture_defs)

lemma fresh_demo: "fresh_id [tokA, tokB, tokO] = 4"
  by (simp add: fresh_id_def tokA_def tokB_def tokO_def)

lemma tokA_expiry: "isExpired 2000 tokA" "isExpired 5000 tokA" "\<not> isExpired 500 tokA"
  "\<not> isExpired 100 tokA" "\<not> isExpired 900 tokA"
proof -
  have "expiresInMs tokA = Some (Finite (of_int 1000))" "\<bar>0 + 1000 :: int\<bar> < 2 ^ 53"
    by (simp_all add: tokA_fields)
  with tokA_fields(1) have "isExpired now tokA = (0 + 1000 < now)" for now
    by (rule isExpired_whole_ms)
  then show "isExpired 2000 tokA" "isExpired 5000 tokA" "\<not> isExpired 500 tokA"
    "\<not> isExpired 100 tokA" "\<not> isExpired 900 tokA"
    by simp_all
qed

lemma tokO_expiry: "\<not> isExpired 500 tokO"
  by (simp add: isExpired_def tokO_def)

lemma validate_1111_late:
  "validateToken 2000 ''1111'' ''verify'' demo
     = (Inr (Err token_expired), demo\<lparr>Token := [tokB, tokO]\<rparr>)"
  by (simp add: validateToken_def Token_findOne_def deleteOne_def demo_fields find_1111 drop_tokA
      err_def tokA_expiry del: find.simps filter.simps)

lemma validate_1111_early:
  "validateToken 500 ''1111'' ''verify'' demo = (Inr (Ok tokA), demo)"
  by (simp add: validateToken_def Token_findOne_def demo_fields find_1111 ok_def tokA_expiry
      del: find.simps)

lemma validate_4444:
  "validateToken 500 ''4444'' ''verify'' demo = (Inr (Ok tokO), demo)"
  by (simp add: validateToken_def Token_findOne_def demo_fields find_4444 ok_def tokO_expiry
      del: find.simps)

lemma user_of_tokO:
  "getTokenUser tokO demo
     = (Inr (Err (user_not_found \<lparr>field = ''email'', value = ''gone@x.com''\<rparr>)), demo)"
proof -
  have "User_findOne ''email'' ''gone@x.com'' demo = Inr None"
    by (simp add: User_findOne_def demo_def exact_users_def userA_def userC_def)
  then show ?thesis
    by (simp add: getTokenUser_def Let_def tokO_def parse_gone err_def)
qed

lemma user_of_tokA:
  "getTokenUser tokA demo
     = (Inr (Ok (\<lparr>field = ''email'', value = ''a@b.com''\<rparr>, lucia_user userA)), demo)"
proof -
  have "User_findOne ''email'' ''a@b.com'' demo = Inr (Some userA)"
    by (simp add: User_findOne_def demo_def exact_users_def userA_def)
  moreover have "getProp userA ''email'' = Str ''a@b.com''"
    by (simp add: getProp_def userA_def)
  ultimately show ?thesis
    by (simp add: getTokenUser_def Let_def tokA_def parse_a ok_def)
qed

lemma create_demo:
  "create 5000 ''5555'' inputA demo = (Inr tokA2, demo\<lparr>Token := [tokA, tokB, tokO, tokA2]\<rparr>)"
  by (simp add: create_def Token_create_def Let_def demo_def fresh_demo inputA_def tokA2_def)

lemma create_demo_delete_fails:
  "create 5000 ''5555'' inputA demo_delete_fails
     = (Inr tokA2, demo_delete_fails\<lparr>Token := [tokA, tokB, tokO, tokA2]\<rparr>)"
  by (simp add: create_def Token_create_def Let_def demo_delete_fails_def fresh_demo inputA_def
      tokA2_def)

section \<open>Validating a token by its pin\<close>

text \<open>
  C1. Provided the store's operations complete, \<open>validateToken\<close> with \<open>(pin, kind)\<close>
  fails with \<open>token_not_found\<close>, the store untouched, when no token of the store
  matches; when the token the lookup finds is expired, that token is deleted from
  the store (nothing else changes) and the call fails with \<open>token_expired\<close>; and
  when the token found is not expired, the call returns it, the store untouched.
\<close>

theorem validateToken_three_outcomes:
  assumes "TokenFindOne \<notin> faults m"
  shows "((\<forall>d \<in> set (Token m). \<not> by_pin_kind p k d)
            \<longrightarrow> validateToken now p k m = (Inr (Err token_not_found), m))
       \<and> (\<forall>tok. find (by_pin_kind p k) (Token m) = Some tok
              \<and> isExpired now tok \<and> TokenDeleteOne \<notin> faults m
            \<longrightarrow> fst (validateToken now p k m) = Inr (Err token_expired)
                \<and> snd (validateToken now p k m)
                    = m\<lparr>Token := filter (\<lambda>d. doc_id d \<noteq> doc_id tok) (Token m)\<rparr>
                \<and> tok \<notin> set (Token (snd (validateToken now p k m))))
       \<and> (\<forall>tok. find (by_pin_kind p k) (Token m) = Some tok \<and> \<not> isExpired now tok
            \<longrightarrow> validateToken now p k m = (Inr (Ok tok), m))"
proof (intro conjI allI impI)
  assume "\<forall>d \<in> set (Token m). \<not> by_pin_kind p k d"
  then have "find (by_pin_kind p k) (Token m) = None"
    by (simp add: find_None_iff)
  with assms show "validateToken now p k m = (Inr (Err token_not_found), m)"
    by (simp add: validateToken_def Token_findOne_def err_def ok_def)
next
  fix tok
  assume h: "find (by_pin_kind p k) (Token m) = Some tok
              \<and> isExpired now tok \<and> TokenDeleteOne \<notin> faults m"
  with assms show "fst (validateToken now p k m) = Inr (Err token_expired)"
    by (simp add: validateToken_def Token_findOne_def deleteOne_def err_def)
  from h assms show "snd (validateToken now p k m)
                    = m\<lparr>Token := filter (\<lambda>d. doc_id d \<noteq> doc_id tok) (Token m)\<rparr>"
    by (simp add: validateToken_def Token_findOne_def deleteOne_def err_def)
  then show "tok \<notin> set (Token (snd (validateToken now p k m)))"
    by simp
next
  fix tok
  assume "find (by_pin_kind p k) (Token m) = Some tok \<and> \<not> isExpired now tok"
  with assms show "validateToken now p k m = (Inr (Ok tok), m)"
    by (simp add: validateToken_def Token_findOne_def err_def ok_def)
qed

theorem validateToken_three_outcomes_witness:
  "validateToken 500 ''9999'' ''verify'' demo = (Inr (Err token_not_found), demo)
   \<and> find (by_pin_kind ''1111'' ''verify'') (Token demo) = Some tokA
   \<and> isExpired 2000 tokA
   \<and> fst (validateToken 2000 ''1111'' ''verify'' demo) = Inr (Err token_expired)
   \<and> Token (snd (validateToken 2000 ''1111'' ''verify'' demo)) = [tokB, tokO]
   \<and> tokA \<notin> set (Token (snd (validateToken 2000 ''1111'' ''verify'' demo)))
   \<and> \<not> isExpired 500 tokA
   \<and> validateToken 500 ''1111'' ''verify'' demo = (Inr (Ok tokA), demo)"
proof -
  have nf: "TokenFindOne \<notin> faults demo" and nd: "TokenDeleteOne \<notin> faults demo"
    by (simp_all add: demo_def)
  have none: "\<forall>d \<in> set (Token demo). \<not> by_pin_kind ''9999'' ''verify'' d"
    using find_9999 [unfolded find_None_iff] unfolding demo_fields by blast
  have found: "find (by_pin_kind ''1111'' ''verify'') (Token demo) = Some tokA"
    by (simp only: demo_fields find_1111)
  have late: "isExpired 2000 tokA" and early: "\<not> isExpired 500 tokA"
    by (rule tokA_expiry)+
  note r1 = validateToken_three_outcomes [OF nf, of "''9999''" "''verify''" 500,
      THEN conjunct1, THEN mp, OF none]
  note r2 = validateToken_three_outcomes [OF nf, of "''1111''" "''verify''" 2000,
      THEN conjunct2, THEN conjunct1, rule_format, OF conjI [OF found conjI [OF late nd]]]
  note r3 = validateToken_three_outcomes [OF nf, of "''1111''" "''verify''" 500,
      THEN conjunct2, THEN conjunct2, rule_format, OF conjI [OF found early]]
  have left: "Token (snd (validateToken 2000 ''1111'' ''verify'' demo)) = [tokB, tokO]"
    unfolding r2 [THEN conjunct2, THEN conjunct1]
    by (simp add: demo_fields drop_tokA del: filter.simps)
  show ?thesis
    using r1 found late r2 [THEN conjunct1] left r2 [THEN conjunct2, THEN conjunct2] early r3
    by simp
qed

section \<open>Resolving the user of a token\<close>

text \<open>
  C7. Whenever the user store's \<open>findOne\<close> returns a record whose value at the
  parsed field is not exactly the parsed value (another string, a value that is no
  string, or no such field), \<open>getTokenUser\<close> fails with
  \<open>identifier_value_mismatch\<close>, the error carrying the parsed field and value.
\<close>

theorem getTokenUser_identifier_value_mismatch:
  assumes "User_findOne (field (parseIdentifier (identifier tok)))
             (value (parseIdentifier (identifier tok))) m = Inr (Some rawUser)"
    and "getProp rawUser (field (parseIdentifier (identifier tok)))
           \<noteq> Str (value (parseIdentifier (identifier tok)))"
  shows "fst (getTokenUser tok m)
           = Inr (Err (identifier_value_mismatch (parseIdentifier (identifier tok))))"
  using assms by (simp add: getTokenUser_def Let_def err_def)

theorem getTokenUser_identifier_value_mismatch_witness:
  "User_findOne ''email'' ''a@b.com'' demo_first_user = Inr (Some userC)
   \<and> getProp userC ''email'' = Str ''c@d.com''
   \<and> fst (getTokenUser tokA demo_first_user)
       = Inr (Err (identifier_value_mismatch \<lparr>field = ''email'', value = ''a@b.com''\<rparr>))"
proof -
  have id: "parseIdentifier (identifier tokA) = \<lparr>field = ''email'', value = ''a@b.com''\<rparr>"
    by (simp add: tokA_def parse_a)
  have a: "User_findOne ''email'' ''a@b.com'' demo_first_user = Inr (Some userC)"
    by (simp add: User_findOne_def demo_first_user_def first_users_def)
  have b: "getProp userC ''email'' = Str ''c@d.com''"
    by (simp add: getProp_def userC_def)
  show ?thesis
    using getTokenUser_identifier_value_mismatch [of tokA demo_first_user userC] a b
    by (simp add: id)
qed

text \<open>
  What \<open>getTokenUser\<close> returns on a record without a field named \<open>userId\<close> of its
  own: the record with \<open>_id\<close> renamed to \<open>userId\<close>. The user has no \<open>_id\<close> field, its
  \<open>userId\<close> is the record's \<open>_id\<close>, every other field of the record is there with
  its value, and nothing else is.
\<close>

lemma getTokenUser_renames_id:
  assumes "i = parseIdentifier (identifier tok)"
    and "User_findOne (field i) (value i) m = Inr (Some rawUser)"
    and "getProp rawUser (field i) = Str (value i)"
    and "rawUser ''userId'' = None"
  shows "getTokenUser tok m = (Inr (Ok (i, lucia_user rawUser)), m)
       \<and> lucia_user rawUser ''_id'' = None
       \<and> lucia_user rawUser ''userId'' = Some (getProp rawUser ''_id'')
       \<and> (\<forall>k. k \<noteq> ''_id'' \<and> k \<noteq> ''userId'' \<longrightarrow> lucia_user rawUser k = rawUser k)"
proof (intro conjI allI impI)
  show "getTokenUser tok m = (Inr (Ok (i, lucia_user rawUser)), m)"
    using assms(1-3) by (simp add: getTokenUser_def Let_def ok_def)
  show "lucia_user rawUser ''_id'' = None"
    by (simp add: lucia_user_def Let_def map_add_def restrict_map_def)
  show "lucia_user rawUser ''userId'' = Some (getProp rawUser ''_id'')"
    using assms(4) by (simp add: lucia_user_def Let_def map_add_def restrict_map_def)
  show "lucia_user rawUser k = rawUser k" if "k \<noteq> ''_id'' \<and> k \<noteq> ''userId''" for k
    using that
    by (simp add: lucia_user_def Let_def map_add_def restrict_map_def split: option.splits)
qed

text \<open>
  C8. The claim holds of the code only for records without a field named
  \<open>userId\<close>. Line 136 writes \<open>{ userId: _id, ...userRest }\<close>, the spread after
  \<open>userId\<close>, so on a record that has a \<open>userId\<close> field of its own that field
  overrides the renamed \<open>_id\<close>: \<open>getTokenUser\<close> succeeds on the token for
  \<open>email:c@d.com\<close>, whose record has \<open>_id\<close> 8 and \<open>userId\<close> \<open>legacy\<close>, and the
  \<open>userId\<close> of the user returned is \<open>legacy\<close>, not the record's \<open>_id\<close>, which is
  lost.
\<close>

theorem getTokenUser_own_userId_shadows_id:
  "fst (getTokenUser tokB demo)
     = Inr (Ok (\<lparr>field = ''email'', value = ''c@d.com''\<rparr>, lucia_user userC))
   \<and> getProp userC ''_id'' = Other 8
   \<and> lucia_user userC ''userId'' = Some (Str ''legacy'')
   \<and> lucia_user userC ''userId'' \<noteq> Some (getProp userC ''_id'')"
proof -
  have "User_findOne ''email'' ''c@d.com'' demo = Inr (Some userC)"
    by (simp add: User_findOne_def demo_def exact_users_def userA_def userC_def)
  moreover have "getProp userC ''email'' = Str ''c@d.com''"
    by (simp add: getProp_def userC_def)
  ultimately have "fst (getTokenUser tokB demo)
     = Inr (Ok (\<lparr>field = ''email'', value = ''c@d.com''\<rparr>, lucia_user userC))"
    by (simp add: getTokenUser_def Let_def tokB_def parse_c ok_def)
  moreover have "getProp userC ''_id'' = Other 8"
    by (simp add: getProp_def userC_def)
  moreover have "lucia_user userC ''userId'' = Some (Str ''legacy'')"
    by (simp add: lucia_user_def Let_def getProp_def userC_def map_add_def restrict_map_def)
  ultimately show ?thesis by simp
qed

text \<open>
  C10. \<open>getTokenUser\<close> leaves both stores exactly as they were, whatever its
  outcome: success, \<open>user_not_found\<close>, \<open>identifier_value_mismatch\<close>, or a rejected
  query.
\<close>

theorem getTokenUser_reads_only: "snd (getTokenUser tok m) = m"
  by (simp add: getTokenUser_def Let_def split: sum.splits option.splits)

theorem getTokenUser_reads_only_witness:
  "snd (getTokenUser tokA demo) = demo \<and> snd (getTokenUser tokO demo) = demo
   \<and> snd (getTokenUser tokA demo_first_user) = demo_first_user"
  using getTokenUser_reads_only [of tokA demo] getTokenUser_reads_only [of tokO demo]
    getTokenUser_reads_only [of tokA demo_first_user]
  by simp


section \<open>Validating a token together with its user\<close>

text \<open>
  C2. \<open>validateUserToken\<close> returns the error of \<open>validateToken\<close> unchanged, with
  the store as \<open>validateToken\<close> left it, when \<open>validateToken\<close> fails; when
  \<open>validateToken\<close> succeeds and \<open>getTokenUser\<close> fails on its token, it deletes that
  token from the store (the delete completing) and returns the error of
  \<open>getTokenUser\<close> unchanged; and when both succeed it returns the user and the
  token.
\<close>

theorem validateUserToken_three_outcomes:
  "(\<forall>e m1. validateToken now p k m = (Inr (Err e), m1)
       \<longrightarrow> validateUserToken now p k m = (Inr (Err e), m1))
   \<and> (\<forall>tok m1 e m2. validateToken now p k m = (Inr (Ok tok), m1)
         \<and> getTokenUser tok m1 = (Inr (Err e), m2) \<and> TokenDeleteOne \<notin> faults m1
       \<longrightarrow> fst (validateUserToken now p k m) = Inr (Err e)
           \<and> snd (validateUserToken now p k m)
               = m1\<lparr>Token := filter (\<lambda>d. doc_id d \<noteq> doc_id tok) (Token m1)\<rparr>
           \<and> tok \<notin> set (Token (snd (validateUserToken now p k m))))
   \<and> (\<forall>tok m1 ident user m2. validateToken now p k m = (Inr (Ok tok), m1)
         \<and> getTokenUser tok m1 = (Inr (Ok (ident, user)), m2)
       \<longrightarrow> validateUserToken now p k m = (Inr (Ok (user, tok)), m1))"
proof (intro conjI allI impI)
  fix e m1
  assume "validateToken now p k m = (Inr (Err e), m1)"
  then show "validateUserToken now p k m = (Inr (Err e), m1)"
    by (simp add: validateUserToken_def)
next
  fix tok m1 e m2
  assume h: "validateToken now p k m = (Inr (Ok tok), m1)
         \<and> getTokenUser tok m1 = (Inr (Err e), m2) \<and> TokenDeleteOne \<notin> faults m1"
  then have "snd (getTokenUser tok m1) = m2" by simp
  then have same: "m2 = m1"
    by (simp add: getTokenUser_def Let_def split: sum.splits option.splits if_splits)
  from h same show "fst (validateUserToken now p k m) = Inr (Err e)"
    by (simp add: validateUserToken_def deleteOne_def)
  from h same show "snd (validateUserToken now p k m)
               = m1\<lparr>Token := filter (\<lambda>d. doc_id d \<noteq> doc_id tok) (Token m1)\<rparr>"
    by (simp add: validateUserToken_def deleteOne_def)
  then show "tok \<notin> set (Token (snd (validateUserToken now p k m)))"
    by simp
next
  fix tok m1 ident user m2
  assume h: "validateToken now p k m = (Inr (Ok tok), m1)
         \<and> getTokenUser tok m1 = (Inr (Ok (ident, user)), m2)"
  then have "snd (getTokenUser tok m1) = m2" by simp
  then have same: "m2 = m1"
    by (simp add: getTokenUser_def Let_def split: sum.splits option.splits if_splits)
  from h same show "validateUserToken now p k m = (Inr (Ok (user, tok)), m1)"
    by (simp add: validateUserToken_def ok_def)
qed

theorem validateUserToken_three_outcomes_witness:
  "validateToken 2000 ''1111'' ''verify'' demo
     = (Inr (Err token_expired), demo\<lparr>Token := [tokB, tokO]\<rparr>)
   \<and> validateUserToken 2000 ''1111'' ''verify'' demo
     = (Inr (Err token_expired), demo\<lparr>Token := [tokB, tokO]\<rparr>)
   \<and> validateToken 500 ''4444'' ''verify'' demo = (Inr (Ok tokO), demo)
   \<and> getTokenUser tokO demo
     = (Inr (Err (user_not_found \<lparr>field = ''email'', value = ''gone@x.com''\<rparr>)), demo)
   \<and> fst (validateUserToken 500 ''4444'' ''verify'' demo)
     = Inr (Err (user_not_found \<lparr>field = ''email'', value = ''gone@x.com''\<rparr>))
   \<and> Token (snd (validateUserToken 500 ''4444'' ''verify'' demo)) = [tokA, tokB]
   \<and> tokO \<notin> set (Token (snd (validateUserToken 500 ''4444'' ''verify'' demo)))
   \<and> validateToken 500 ''1111'' ''verify'' demo = (Inr (Ok tokA), demo)
   \<and> getTokenUser tokA demo
     = (Inr (Ok (\<lparr>field = ''email'', value = ''a@b.com''\<rparr>, lucia_user userA)), demo)
   \<and> validateUserToken 500 ''1111'' ''verify'' demo = (Inr (Ok (lucia_user userA, tokA)), demo)"
proof -
  have nd: "TokenDeleteOne \<notin> faults demo" by (simp add: demo_fields)
  note t1 = validateUserToken_three_outcomes [of 2000 "''1111''" "''verify''" demo,
      THEN conjunct1, rule_format, OF validate_1111_late]
  note t2 = validateUserToken_three_outcomes [of 500 "''4444''" "''verify''" demo,
      THEN conjunct2, THEN conjunct1, rule_format,
      OF conjI [OF validate_4444 conjI [OF user_of_tokO nd]]]
  note t3 = validateUserToken_three_outcomes [of 500 "''1111''" "''verify''" demo,
      THEN conjunct2, THEN conjunct2, rule_format, OF conjI [OF validate_1111_early user_of_tokA]]
  have left: "Token (snd (validateUserToken 500 ''4444'' ''verify'' demo)) = [tokA, tokB]"
    unfolding t2 [THEN conjunct2, THEN conjunct1]
    by (simp add: demo_fields drop_tokO del: filter.simps)
  show ?thesis
    using t1 t2 [THEN conjunct1] t2 [THEN conjunct2, THEN conjunct2] t3 left
      validate_1111_late validate_4444 validate_1111_early user_of_tokO user_of_tokA
    by simp
qed

section \<open>Getting or creating a token\<close>

text \<open>
  C3, as the code has it. In the branch of \<open>getOrCreate\<close> where a token for
  \<open>(identifier, kind)\<close> is found and is expired, and the store's create succeeds:
  if the delete of the expired token succeeds too, the call succeeds and returns
  the newly created token, which is in the store while the expired one is not; if
  the delete fails, the call fails with the store's error, although the new token
  has been stored (the \<open>Promise.all\<close> of line 59 rejects as soon as one of its
  promises does).
\<close>

theorem getOrCreate_expired_replacement:
  assumes "TokenFindOne \<notin> faults m"
    and "find (by_identifier_kind (identifier input) (kind input)) (Token m) = Some existing"
    and "isExpired now existing"
    and "create now newPin input m = (Inr newToken, m1)"
  shows "(TokenDeleteOne \<notin> faults m
            \<longrightarrow> fst (getOrCreate now newPin input m) = Inr newToken
                \<and> newToken \<in> set (Token (snd (getOrCreate now newPin input m)))
                \<and> existing \<notin> set (Token (snd (getOrCreate now newPin input m))))
       \<and> (TokenDeleteOne \<in> faults m
            \<longrightarrow> fst (getOrCreate now newPin input m) = Inl StoreFailure
                \<and> Token (snd (getOrCreate now newPin input m)) = Token m @ [newToken])"
proof -
  from assms(4) have nc: "TokenCreate \<notin> faults m"
    by (auto simp: create_def Token_create_def split: if_splits)
  with assms(4) have m1: "m1 = m\<lparr>Token := Token m @ [newToken]\<rparr>"
    and nid: "doc_id newToken = fresh_id (Token m)"
    by (auto simp: create_def Token_create_def Let_def)
  from assms(2) have "existing \<in> set (Token m)" by (rule find_in_set)
  then have diff: "doc_id newToken \<noteq> doc_id existing"
    using fresh_id_fresh [of existing "Token m"] nid by simp
  have fnd: "Token_findOne (by_identifier_kind (identifier input) (kind input)) m
               = Inr (Some existing)"
    using assms(1,2) by (simp add: Token_findOne_def)
  show ?thesis
  proof (intro conjI impI)
    assume nd: "TokenDeleteOne \<notin> faults m"
    then have run: "getOrCreate now newPin input m
        = (Inr newToken, m1\<lparr>Token := filter (\<lambda>d. doc_id d \<noteq> doc_id existing) (Token m1)\<rparr>)"
      using fnd assms(3,4) m1 by (simp add: getOrCreate_def deleteOne_def)
    show "fst (getOrCreate now newPin input m) = Inr newToken"
      by (simp add: run)
    show "newToken \<in> set (Token (snd (getOrCreate now newPin input m)))"
      using diff by (simp add: run m1)
    show "existing \<notin> set (Token (snd (getOrCreate now newPin input m)))"
      by (simp add: run)
  next
    assume d: "TokenDeleteOne \<in> faults m"
    then have run: "getOrCreate now newPin input m = (Inl StoreFailure, m1)"
      using fnd assms(3,4) m1 by (simp add: getOrCreate_def deleteOne_def)
    show "fst (getOrCreate now newPin input m) = Inl StoreFailure"
      by (simp add: run)
    show "Token (snd (getOrCreate now newPin input m)) = Token m @ [newToken]"
      by (simp add: run m1)
  qed
qed

theorem getOrCreate_expired_replacement_witness:
  "find (by_identifier_kind (identifier inputA) (kind inputA)) (Token demo) = Some tokA
   \<and> isExpired 5000 tokA
   \<and> create 5000 ''5555'' inputA demo = (Inr tokA2, demo\<lparr>Token := [tokA, tokB, tokO, tokA2]\<rparr>)
   \<and> fst (getOrCreate 5000 ''5555'' inputA demo) = Inr tokA2
   \<and> tokA2 \<in> set (Token (snd (getOrCreate 5000 ''5555'' inputA demo)))
   \<and> tokA \<notin> set (Token (snd (getOrCreate 5000 ''5555'' inputA demo)))
   \<and> fst (getOrCreate 5000 ''5555'' inputA demo_delete_fails) = Inl StoreFailure
   \<and> Token (snd (getOrCreate 5000 ''5555'' inputA demo_delete_fails))
       = [tokA, tokB, tokO, tokA2]"
proof -
  have nf: "TokenFindOne \<notin> faults demo" "TokenDeleteOne \<notin> faults demo"
    by (simp_all add: demo_fields)
  have nf': "TokenFindOne \<notin> faults demo_delete_fails"
    "TokenDeleteOne \<in> faults demo_delete_fails"
    by (simp_all add: demo_delete_fails_fields)
  have fa: "find (by_identifier_kind (identifier inputA) (kind inputA)) (Token demo) = Some tokA"
    by (simp only: demo_fields find_inputA)
  have fa': "find (by_identifier_kind (identifier inputA) (kind inputA)) (Token demo_delete_fails)
      = Some tokA"
    by (simp only: demo_delete_fails_fields find_inputA)
  have ex: "isExpired 5000 tokA" by (rule tokA_expiry)
  note t1 = getOrCreate_expired_replacement [OF nf(1) fa ex create_demo, THEN conjunct1,
      rule_format, OF nf(2)]
  note t2 = getOrCreate_expired_replacement [OF nf'(1) fa' ex create_demo_delete_fails,
      THEN conjunct2, rule_format, OF nf'(2)]
  have stored: "Token (snd (getOrCreate 5000 ''5555'' inputA demo_delete_fails))
       = [tokA, tokB, tokO, tokA2]"
    unfolding t2 [THEN conjunct2] by (simp add: demo_delete_fails_fields)
  show ?thesis
    using fa ex create_demo t1 t2 [THEN conjunct1] stored by simp
qed

text \<open>
  C3 as the claim states it fails when the delete fails: with the expired token
  for \<open>(email:a@b.com, verify)\<close> in the store and a \<open>deleteOne\<close> that rejects, the
  create succeeds and makes a new token, and \<open>getOrCreate\<close> does not return it: the
  call fails.
\<close>

theorem getOrCreate_delete_fails_counterexample:
  "Token_findOne (by_identifier_kind (identifier inputA) (kind inputA)) demo_delete_fails
       = Inr (Some tokA)
   \<and> isExpired 5000 tokA
   \<and> fst (create 5000 ''5555'' inputA demo_delete_fails) = Inr tokA2
   \<and> fst (deleteOne tokA demo_delete_fails) = Inl StoreFailure
   \<and> fst (getOrCreate 5000 ''5555'' inputA demo_delete_fails) = Inl StoreFailure
   \<and> fst (getOrCreate 5000 ''5555'' inputA demo_delete_fails) \<noteq> Inr tokA2"
proof -
  have a: "Token_findOne (by_identifier_kind (identifier inputA) (kind inputA)) demo_delete_fails
       = Inr (Some tokA)"
    by (simp add: Token_findOne_def demo_delete_fails_fields find_inputA del: find.simps)
  have b: "isExpired 5000 tokA" by (rule tokA_expiry)
  note c = create_demo_delete_fails
  have d: "deleteOne tokA (demo_delete_fails\<lparr>Token := [tokA, tokB, tokO, tokA2]\<rparr>)
      = (Inl StoreFailure, demo_delete_fails\<lparr>Token := [tokA, tokB, tokO, tokA2]\<rparr>)"
    by (simp add: deleteOne_def demo_delete_fails_fields)
  have d': "fst (deleteOne tokA demo_delete_fails) = Inl StoreFailure"
    by (simp add: deleteOne_def demo_delete_fails_fields)
  have e: "fst (getOrCreate 5000 ''5555'' inputA demo_delete_fails) = Inl StoreFailure"
    by (simp add: getOrCreate_def a b c d)
  show ?thesis using a b c d' e by simp
qed

text \<open>
  C6. When \<open>getOrCreate\<close> finds an existing token for \<open>(identifier, kind)\<close> that is
  not expired, it returns that token as it is and leaves the store unchanged. So
  two calls in sequence for the same key, the token unexpired at both, return the
  same token both times, the store after them is the store before them, and if it
  held exactly one token for the key it still holds exactly one.
\<close>

theorem getOrCreate_reuses_live_token:
  assumes "TokenFindOne \<notin> faults m"
    and "find (by_identifier_kind (identifier input) (kind input)) (Token m) = Some tok"
    and "\<not> isExpired now1 tok" and "\<not> isExpired now2 tok"
  shows "getOrCreate now1 pin1 input m = (Inr tok, m)
       \<and> getOrCreate now2 pin2 input (snd (getOrCreate now1 pin1 input m)) = (Inr tok, m)
       \<and> (length (filter (by_identifier_kind (identifier input) (kind input)) (Token m)) = 1
           \<longrightarrow> length (filter (by_identifier_kind (identifier input) (kind input))
                  (Token (snd (getOrCreate now2 pin2 input
                     (snd (getOrCreate now1 pin1 input m)))))) = 1)"
proof -
  have one: "getOrCreate now pin0 input m = (Inr tok, m)" if "\<not> isExpired now tok" for now pin0
    using assms(1,2) that by (simp add: getOrCreate_def Token_findOne_def)
  have first: "getOrCreate now1 pin1 input m = (Inr tok, m)"
    using assms(3) by (rule one)
  have second: "getOrCreate now2 pin2 input m = (Inr tok, m)"
    using assms(4) by (rule one)
  show ?thesis
    by (simp add: first second)
qed

theorem getOrCreate_reuses_live_token_witness:
  "find (by_identifier_kind (identifier inputA) (kind inputA)) (Token demo) = Some tokA
   \<and> \<not> isExpired 100 tokA \<and> \<not> isExpired 900 tokA
   \<and> length (filter (by_identifier_kind (identifier inputA) (kind inputA)) (Token demo)) = 1
   \<and> getOrCreate 100 ''5555'' inputA demo = (Inr tokA, demo)
   \<and> getOrCreate 900 ''6666'' inputA (snd (getOrCreate 100 ''5555'' inputA demo))
       = (Inr tokA, demo)
   \<and> length (filter (by_identifier_kind (identifier inputA) (kind inputA))
        (Token (snd (getOrCreate 900 ''6666'' inputA
           (snd (getOrCreate 100 ''5555'' inputA demo)))))) = 1"
proof -
  have nf: "TokenFindOne \<notin> faults demo" by (simp add: demo_fields)
  have fa: "find (by_identifier_kind (identifier inputA) (kind inputA)) (Token demo) = Some tokA"
    by (simp only: demo_fields find_inputA)
  have ex: "\<not> isExpired 100 tokA" "\<not> isExpired 900 tokA" by (rule tokA_expiry)+
  have len: "length (filter (by_identifier_kind (identifier inputA) (kind inputA)) (Token demo)) = 1"
    by (simp add: demo_fields by_identifier_kind_def fixture_defs)
  note t = getOrCreate_reuses_live_token [OF nf fa ex, of "''5555''" "''6666''"]
  show ?thesis
    using fa ex len t [THEN conjunct1] t [THEN conjunct2, THEN conjunct1]
      t [THEN conjunct2, THEN conjunct2, rule_format, OF len]
    by simp
qed

end
